theory Spec2Isabelle
  imports Main "HOL-Library.Sublist"
begin

section \<open>The short-term memory provider \<open>mem_local_short.py\<close>\<close>

text \<open>
  A shallow embedding of \<^verbatim>\<open>core/providers/memory/mem_local_short/mem_local_short.py\<close>:
  the function \<^verbatim>\<open>extract_json_data\<close> and the class \<^verbatim>\<open>MemoryProvider\<close> with its
  methods \<^verbatim>\<open>__init__\<close>, \<^verbatim>\<open>init_memory\<close>, \<^verbatim>\<open>load_memory\<close>,
  \<^verbatim>\<open>save_memory_to_file\<close>, \<^verbatim>\<open>save_memory\<close> and \<^verbatim>\<open>query_memory\<close>.

  The object's attributes are a record that every method takes and returns; what lies
  outside the object (the YAML file at \<^verbatim>\<open>memory_path\<close>, the remote save API, the
  calls made to the LLM, the logger) is a second record, the world. What the module
  imports from elsewhere (\<^verbatim>\<open>json.loads\<close>, \<^verbatim>\<open>check_model_key\<close>, the clock) is a
  record of parameters, so every theorem holds for whatever these functions compute.

  Every function is modelled from the text of the source as it stands. In
  \<^verbatim>\<open>save_memory\<close> the statement of line 176, which appends the time to \<^verbatim>\<open>msgStr\<close>,
  is indented by four columns where the method body has eight: the body of the method
  ends with line 175, and what follows line 176 in the file (the LLM call, the
  validation of its response, the two ways of saving, the final \<^verbatim>\<open>return\<close>) is not
  part of any method. The model of \<^verbatim>\<open>save_memory\<close> is the method of lines 149 to 175.
\<close>

subsection \<open>Python strings\<close>

text \<open>
  A string is a list of characters. The source compares, searches, cuts and joins
  strings and never looks inside a character, so nothing below depends on how a
  character is encoded.

  A value that is a \<^verbatim>\<open>str\<close> or \<^verbatim>\<open>None\<close>. \<^verbatim>\<open>short_memory\<close> is such a value:
  \<^verbatim>\<open>load_memory(None)\<close> stores \<^verbatim>\<open>None\<close> in it when the provider is not file-backed.
\<close>

type_synonym pystr = "string option"

text \<open>Python's truth value of such a value: \<^verbatim>\<open>None\<close> and \<^verbatim>\<open>""\<close> are false.\<close>

definition truthy :: "pystr \<Rightarrow> bool" where
  "truthy v = (case v of None \<Rightarrow> False | Some s \<Rightarrow> s \<noteq> [])"

text \<open>
  \<^verbatim>\<open>s.find(sub, start)\<close> for \<open>start \<ge> 0\<close>: the lowest index \<open>i \<ge> start\<close> at which
  \<open>sub\<close> occurs in \<open>s\<close>, or \<open>-1\<close>.
\<close>

fun find_from :: "string \<Rightarrow> string \<Rightarrow> nat \<Rightarrow> int" where
  "find_from sub [] i = (if sub = [] then int i else - 1)"
| "find_from sub (c # cs) i =
     (if prefix sub (c # cs) then int i else find_from sub cs (Suc i))"

definition py_find :: "string \<Rightarrow> string \<Rightarrow> nat \<Rightarrow> int" where
  "py_find s sub start =
     (if length s < start then - 1 else find_from sub (drop start s) start)"

text \<open>The slice \<^verbatim>\<open>s[a:b]\<close> for \<open>a \<ge> 0\<close> and \<open>b \<ge> 0\<close> (empty when \<open>b \<le> a\<close>).\<close>

definition py_slice :: "string \<Rightarrow> int \<Rightarrow> int \<Rightarrow> string" where
  "py_slice s a b = take (nat b - nat a) (drop (nat a) s)"

text \<open>\<^verbatim>\<open>str(n)\<close> for a natural number.\<close>

fun str_nat :: "nat \<Rightarrow> string" where
  "str_nat n =
     (if n < 10 then [''0123456789'' ! n]
      else str_nat (n div 10) @ [''0123456789'' ! (n mod 10)])"

declare str_nat.simps [simp del]

subsection \<open>The clock\<close>

text \<open>
  The fields of \<^verbatim>\<open>time.struct_time\<close> that the format string reads, and
  \<^verbatim>\<open>time.strftime("%Y-%m-%d %H:%M:%S", t)\<close>: \<^verbatim>\<open>%Y\<close> is the year in decimal, the
  other directives are decimal numbers padded with a zero to two digits.
\<close>

record struct_time =
  tm_year :: nat
  tm_mon :: nat
  tm_mday :: nat
  tm_hour :: nat
  tm_min :: nat
  tm_sec :: nat

definition pad2 :: "nat \<Rightarrow> string" where
  "pad2 n = (if n < 10 then CHR ''0'' # str_nat n else str_nat n)"

definition strftime :: "struct_time \<Rightarrow> string" where
  "strftime t =
     str_nat (tm_year t) @ ''-'' @ pad2 (tm_mon t) @ ''-'' @ pad2 (tm_mday t) @ '' '' @
     pad2 (tm_hour t) @ '':'' @ pad2 (tm_min t) @ '':'' @ pad2 (tm_sec t)"

subsection \<open>Collaborators\<close>

text \<open>
  The two module-level prompt templates are constants of the source; the model names
  them and does not spell them out.
\<close>

datatype system_prompt = Short_term_memory_prompt | Short_term_memory_prompt_only_content

text \<open>
  The LLM handle. \<^verbatim>\<open>model_name\<close> and \<^verbatim>\<open>api_key\<close> are read with \<^verbatim>\<open>getattr\<close> and
  may be missing (\<open>None\<close>). \<^verbatim>\<open>response_no_stream(prompt, msgStr, max_tokens=2000,
  temperature=0.2)\<close> returns the response text or raises.
\<close>

datatype llm_reply = Reply string | Raise

record llm =
  class_name :: string
  model_name :: "string option"
  api_key :: "string option"
  response_no_stream :: "system_prompt \<Rightarrow> string \<Rightarrow> llm_reply"

text \<open>
  What the module imports:
  \<^item> \<open>json_loads s\<close> tells whether \<^verbatim>\<open>json.loads(s)\<close> returns (\<open>True\<close>) or raises
    (\<open>False\<close>); the parsed value is never used by the source;
  \<^item> \<open>check_model_key k\<close> is \<^verbatim>\<open>check_model_key(label, k)\<close> of \<^verbatim>\<open>core.utils.util\<close>
    at the fixed label: a problem description, or \<open>None\<close>;
  \<^item> \<open>localtime\<close> is what \<^verbatim>\<open>time.localtime()\<close> returns at the call.
\<close>

record env =
  json_loads :: "string \<Rightarrow> bool"
  check_model_key :: "string option \<Rightarrow> string option"
  localtime :: struct_time

datatype log_entry =
    Debug_model_info string
  | Error string
  | Info string

record msg =
  role :: string
  content :: string

subsection \<open>State\<close>

record provider =
  role_id :: string
  llm :: "llm option"
  short_memory :: pystr
  save_to_file :: bool

text \<open>
  The world: the YAML document at \<^verbatim>\<open>memory_path\<close> (\<open>None\<close> when the file does not
  exist; a key bound to \<open>None\<close> is a YAML null), the number of times the file was opened
  for reading, the calls \<^verbatim>\<open>save_mem_local_short(role_id, result)\<close> made so far, the
  requests sent to the LLM so far, and the logger's output. File operations succeed and
  the document is a mapping; \<^verbatim>\<open>print\<close> output is not recorded.
\<close>

record world =
  memory_file :: "(string \<rightharpoonup> pystr) option"
  file_reads :: nat
  remote_saves :: "(string \<times> string) list"
  llm_calls :: "(system_prompt \<times> string) list"
  logger :: "log_entry list"

definition log_add :: "log_entry \<Rightarrow> world \<Rightarrow> world" where
  "log_add x w = w\<lparr>logger := logger w @ [x]\<rparr>"

subsection \<open>\<^verbatim>\<open>extract_json_data\<close>\<close>


subsection \<open>Loading and storing\<close>

text \<open>
  The block shared by \<^verbatim>\<open>load_memory\<close> and \<^verbatim>\<open>save_memory_to_file\<close>:
  \<^verbatim>\<open>all_memory = {}\<close>, and when the file exists it is opened and
  \<^verbatim>\<open>all_memory = yaml.safe_load(f) or {}\<close>.
\<close>

definition read_all_memory :: "world \<Rightarrow> (string \<rightharpoonup> pystr) \<times> world" where
  "read_all_memory w =
     (case memory_file w of
        None \<Rightarrow> (Map.empty, w)
      | Some doc \<Rightarrow> (doc, w\<lparr>file_reads := Suc (file_reads w)\<rparr>))"

definition load_memory :: "pystr \<Rightarrow> provider \<Rightarrow> world \<Rightarrow> provider \<times> world" where
  "load_memory summary_memory p w =
     (if truthy summary_memory \<or> \<not> save_to_file p
      then (p\<lparr>short_memory := summary_memory\<rparr>, w)
      else
        (let (all_memory, w') = read_all_memory w
         in case all_memory (role_id p) of
              None \<Rightarrow> (p, w')
            | Some v \<Rightarrow> (p\<lparr>short_memory := v\<rparr>, w')))"

definition save_memory_to_file :: "provider \<Rightarrow> world \<Rightarrow> world" where
  "save_memory_to_file p w =
     (let (all_memory, w') = read_all_memory w
      in w'\<lparr>memory_file := Some (all_memory(role_id p \<mapsto> short_memory p))\<rparr>)"

text \<open>
  Modelled from the spec: \<^verbatim>\<open>MemoryProviderBase.__init__\<close>, which \<^verbatim>\<open>__init__\<close> calls
  first, is not part of the source at hand. The role identifier and the LLM handle that
  it leaves in the object are the parameters \<open>role0\<close> and \<open>llm0\<close>; the rest is the
  constructor of the source: the empty memory, the file-backed mode, the load.
\<close>

definition new_provider :: "string \<Rightarrow> llm option \<Rightarrow> pystr \<Rightarrow> world \<Rightarrow> provider \<times> world" where
  "new_provider role0 llm0 summary_memory w =
     load_memory summary_memory
       \<lparr>role_id = role0, llm = llm0, short_memory = Some [], save_to_file = True\<rparr> w"

text \<open>
  Modelled from the spec: \<^verbatim>\<open>MemoryProviderBase.init_memory\<close>, which \<^verbatim>\<open>init_memory\<close>
  calls first, is not part of the source at hand either; it binds the role identifier
  and the LLM handle it is given. The mode is then set and the memory loaded, as in the
  source.
\<close>

definition init_memory ::
  "string \<Rightarrow> llm option \<Rightarrow> pystr \<Rightarrow> bool \<Rightarrow> provider \<Rightarrow> world \<Rightarrow> provider \<times> world" where
  "init_memory role_id' llm' summary_memory save_to_file' p w =
     load_memory summary_memory
       (p\<lparr>role_id := role_id', llm := llm', save_to_file := save_to_file'\<rparr>) w"

subsection \<open>\<^verbatim>\<open>save_memory\<close> and \<^verbatim>\<open>query_memory\<close>\<close>

text \<open>The loop over the transcript, appending to \<^verbatim>\<open>msgStr\<close>.\<close>

fun append_turns :: "string \<Rightarrow> msg list \<Rightarrow> string" where
  "append_turns msgStr [] = msgStr"
| "append_turns msgStr (m # msgs) =
     append_turns
       (if role m = ''user'' then msgStr @ ''User: '' @ content m @ ''\<newline>''
        else if role m = ''assistant'' then msgStr @ ''Assistant: '' @ content m @ ''\<newline>''
        else msgStr) msgs"

text \<open>
  Lines 164 to 172: \<^verbatim>\<open>msgStr\<close> after the loop and the history block, which is
  appended when \<^verbatim>\<open>short_memory\<close> is a non-empty string.
\<close>

definition build_msgStr :: "pystr \<Rightarrow> msg list \<Rightarrow> string" where
  "build_msgStr mem msgs =
     (let msgStr = append_turns [] msgs
      in case mem of
           None \<Rightarrow> msgStr
         | Some s \<Rightarrow> if 0 < length s
                    then msgStr @ ''History Memory:\<newline>'' @ s else msgStr)"

definition model_info :: "llm option \<Rightarrow> string" where
  "model_info h =
     (case h of
        None \<Rightarrow> ''NoneType''
      | Some l \<Rightarrow> (case model_name l of None \<Rightarrow> class_name l | Some n \<Rightarrow> n))"

definition api_key_of :: "llm option \<Rightarrow> string option" where
  "api_key_of h = (case h of None \<Rightarrow> None | Some l \<Rightarrow> api_key l)"

text \<open>
  The head of \<^verbatim>\<open>save_memory\<close>: the model in use is logged, the LLM's credential is
  checked, and what the check reports is logged as an error.
\<close>

definition log_model_and_key :: "env \<Rightarrow> provider \<Rightarrow> world \<Rightarrow> world" where
  "log_model_and_key e p w =
     (let w = log_add (Debug_model_info (model_info (llm p))) w;
          memory_key_msg = check_model_key e (api_key_of (llm p))
      in case memory_key_msg of
           None \<Rightarrow> w
         | Some m \<Rightarrow> if m \<noteq> [] then log_add (Error m) w else w)"

text \<open>
  The method: the head, the two early returns, then \<^verbatim>\<open>msgStr\<close> and \<^verbatim>\<open>time_str\<close>
  are computed and the body ends, so the method returns \<^verbatim>\<open>None\<close>.
\<close>

datatype outcome = Returns pystr

definition save_memory :: "env \<Rightarrow> msg list \<Rightarrow> provider \<Rightarrow> world \<Rightarrow> outcome \<times> provider \<times> world" where
  "save_memory e msgs p w =
     (let w = log_model_and_key e p w
      in case llm p of
           None \<Rightarrow> (Returns None, p, log_add (Error ''LLM is not set for memory provider'') w)
         | Some l \<Rightarrow>
             if length msgs < 2 then (Returns None, p, w)
             else
               (let msgStr = build_msgStr (short_memory p) msgs;
                    time_str = strftime (localtime e)
                in (Returns None, p, w)))"

definition query_memory :: "string \<Rightarrow> provider \<Rightarrow> world \<Rightarrow> pystr \<times> provider \<times> world" where
  "query_memory query p w = (short_memory p, p, w)"

subsection \<open>Vocabulary of the statements\<close>

text \<open>
  The two tests of \<^verbatim>\<open>extract_json_data\<close> and the slice it returns when both indices
  are found: \<open>fenced s\<close> says that \<^verbatim>\<open>```json\<close> occurs in \<open>s\<close> and \<^verbatim>\<open>```\<close> occurs
  again after it, and \<open>fence_body s\<close> is the text between the two.
\<close>

definition fenced :: "string \<Rightarrow> bool" where
  "fenced s =
     (py_find s ''```json'' 0 \<noteq> - 1 \<and>
      py_find s ''```'' (nat (py_find s ''```json'' 0 + 1)) \<noteq> - 1)"

definition fence_body :: "string \<Rightarrow> string" where
  "fence_body s =
     py_slice s (py_find s ''```json'' 0 + 7)
       (py_find s ''```'' (nat (py_find s ''```json'' 0 + 1)))"

text \<open>The stored document as a reader finds it: empty when there is no file.\<close>

definition document :: "world \<Rightarrow> (string \<rightharpoonup> pystr)" where
  "document w = (case memory_file w of None \<Rightarrow> Map.empty | Some doc \<Rightarrow> doc)"

text \<open>
  The line of a dialogue turn, and the turns that have one.
\<close>

definition dialogue :: "msg \<Rightarrow> bool" where
  "dialogue m = (role m = ''user'' \<or> role m = ''assistant'')"



text \<open>
  \<open>occurs_before sub s n\<close>: the pattern \<open>sub\<close> occurs in \<open>s\<close> at an index below \<open>n\<close>.
\<close>

fun occurs_before :: "string \<Rightarrow> string \<Rightarrow> nat \<Rightarrow> bool" where
  "occurs_before sub s 0 = False"
| "occurs_before sub [] (Suc n) = (sub = [])"
| "occurs_before sub (c # cs) (Suc n) = (prefix sub (c # cs) \<or> occurs_before sub cs n)"

subsection \<open>Sample data\<close>

text \<open>
  The outcome of \<^verbatim>\<open>json.loads\<close> on the strings that the examples below reach: it
  returns on the four listed documents and raises on the others (the empty string and
  plain prose). A check of the credential that reports a key left at its placeholder.
\<close>

definition json_loads_sample :: "string \<Rightarrow> bool" where
  \<open>json_loads_sample s =
     (s \<in> set [''{}'', ''[1, 2]'', ''\<newline>[1, 2]\<newline>'', ''{"k": "```json```"}''])\<close>

definition check_model_key_sample :: "string option \<Rightarrow> string option" where
  "check_model_key_sample k =
     (case k of
        None \<Rightarrow> None
      | Some s \<Rightarrow> if prefix ''your'' s then Some (''API key is not set: '' @ s) else None)"

definition env_sample :: env where
  "env_sample =
     \<lparr>json_loads = json_loads_sample, check_model_key = check_model_key_sample,
      localtime = \<lparr>tm_year = 2025, tm_mon = 3, tm_mday = 9,
                   tm_hour = 8, tm_min = 5, tm_sec = 0\<rparr>\<rparr>"

definition llm_sample :: "string \<Rightarrow> string \<Rightarrow> llm" where
  "llm_sample key result =
     \<lparr>class_name = ''LLMProvider'', model_name = Some ''sample-model'', api_key = Some key,
      response_no_stream = (\<lambda>prompt msgStr. Reply result)\<rparr>"

definition provider_sample :: "bool \<Rightarrow> string \<Rightarrow> provider" where
  "provider_sample to_file result =
     \<lparr>role_id = ''role-a'', llm = Some (llm_sample ''sk-1234'' result),
      short_memory = Some ''[1, 2]'', save_to_file = to_file\<rparr>"

definition world_sample :: world where
  "world_sample =
     \<lparr>memory_file = Some [''role-b'' \<mapsto> Some ''{}''], file_reads = 0, remote_saves = [],
      llm_calls = [], logger = []\<rparr>"

definition msgs_sample :: "msg list" where
  "msgs_sample =
     [\<lparr>role = ''user'', content = ''I moved to Lyon''\<rparr>,
      \<lparr>role = ''assistant'', content = ''Noted''\<rparr>]"

definition tool_msgs_sample :: "msg list" where
  "tool_msgs_sample =
     [\<lparr>role = ''system'', content = ''You are a helper''\<rparr>,
      \<lparr>role = ''tool'', content = ''ok''\<rparr>]"


definition bad_key_provider_sample :: provider where
  "bad_key_provider_sample =
     \<lparr>role_id = ''role-a'', llm = Some (llm_sample ''your-api-key'' ''{}''),
      short_memory = Some ''[1, 2]'', save_to_file = True\<rparr>"

section \<open>Properties\<close>

subsection \<open>Searching\<close>


lemma find_from_sound:
  "find_from sub s k \<noteq> - 1 \<Longrightarrow>
   \<exists>i. find_from sub s k = int (k + i) \<and> i \<le> length s \<and> prefix sub (drop i s) \<and>
       \<not> occurs_before sub s i"
proof (induction s arbitrary: k)
  case Nil
  then show ?case by (auto split: if_splits intro: exI [of _ 0])
next
  case (Cons c cs)
  show ?case
  proof (cases "prefix sub (c # cs)")
    case True
    then show ?thesis by (auto intro: exI [of _ 0])
  next
    case False
    with Cons.prems have "find_from sub cs (Suc k) \<noteq> - 1" by simp
    from Cons.IH [OF this] obtain i where
      i: "find_from sub cs (Suc k) = int (Suc k + i)" "i \<le> length cs"
        "prefix sub (drop i cs)" "\<not> occurs_before sub cs i"
      by blast
    show ?thesis
      using False i by (intro exI [of _ "Suc i"]) simp
  qed
qed

lemma find_from_complete:
  "j \<le> length s \<Longrightarrow> prefix sub (drop j s) \<Longrightarrow> find_from sub s k \<noteq> - 1"
proof (induction s arbitrary: j k)
  case Nil
  then show ?case by simp
next
  case (Cons c cs)
  show ?case
  proof (cases j)
    case 0
    with Cons.prems show ?thesis by simp
  next
    case (Suc j')
    with Cons.prems have "j' \<le> length cs" "prefix sub (drop j' cs)" by simp_all
    from Cons.IH [OF this] show ?thesis by simp
  qed
qed

lemma find_from_range: "find_from sub s k = - 1 \<or> int k \<le> find_from sub s k"
  using find_from_sound [of sub s k] by (cases "find_from sub s k = - 1") auto

subsection \<open>Fenced responses\<close>



lemma py_find_sound:
  assumes "py_find s sub start \<noteq> - 1"
  shows "\<exists>i. py_find s sub start = int (start + i) \<and> start + i \<le> length s \<and>
             prefix sub (drop (start + i) s) \<and> \<not> occurs_before sub (drop start s) i"
proof -
  from assms have le: "start \<le> length s" and "find_from sub (drop start s) start \<noteq> - 1"
    by (auto simp: py_find_def split: if_splits)
  from find_from_sound [OF this(2)] obtain i where
    "find_from sub (drop start s) start = int (start + i)" "i \<le> length (drop start s)"
    "prefix sub (drop i (drop start s))" "\<not> occurs_before sub (drop start s) i"
    by blast
  then show ?thesis
    using le by (intro exI [of _ i]) (simp add: py_find_def add.commute)
qed

lemma py_find_complete:
  assumes "start \<le> j" and "j \<le> length s" and "prefix sub (drop j s)"
  shows "py_find s sub start \<noteq> - 1"
proof -
  have "prefix sub (drop (j - start) (drop start s))"
    using assms by simp
  moreover have "j - start \<le> length (drop start s)"
    using assms by simp
  ultimately have "find_from sub (drop start s) start \<noteq> - 1"
    by (rule find_from_complete [rotated])
  then show ?thesis
    using assms by (simp add: py_find_def)
qed

lemma drop_length_append: "drop (length xs) (xs @ ys) = ys"
  by simp

lemma occurs_beforeI:
  "j < i \<Longrightarrow> j \<le> length s \<Longrightarrow> prefix sub (drop j s) \<Longrightarrow> occurs_before sub s i"
proof (induction sub s i arbitrary: j rule: occurs_before.induct)
  case (1 sub s)
  then show ?case by simp
next
  case (2 sub n)
  then show ?case by simp
next
  case (3 sub c cs n)
  show ?case
  proof (cases j)
    case 0
    with "3.prems" show ?thesis by simp
  next
    case (Suc j')
    with "3.prems" have "j' < n" "j' \<le> length cs" "prefix sub (drop j' cs)" by simp_all
    from "3.IH" [OF this] show ?thesis by simp
  qed
qed

text \<open>
  A response that holds the opener and, anywhere after it, the closer is fenced; and
  every fenced response splits at its first opener and at the first closer after it,
  with \<open>fence_body\<close> between the two.
\<close>

lemma fenced_if_block: "fenced (pre @ ''```json'' @ body @ ''```'' @ post)"
proof -
  let ?s = "pre @ ''```json'' @ body @ ''```'' @ post"
  have 1: "py_find ?s ''```json'' 0 \<noteq> - 1"
    by (rule py_find_complete [of 0 "length pre"]) simp_all
  from py_find_sound [OF 1] obtain i where
    i: "py_find ?s ''```json'' 0 = int i" "prefix ''```json'' (drop i ?s)"
      "\<not> occurs_before ''```json'' ?s i"
    by auto
  have "i \<le> length pre"
  proof (rule ccontr)
    assume "\<not> i \<le> length pre"
    then have "length pre < i" by simp
    moreover have "prefix ''```json'' (drop (length pre) ?s)" by simp
    ultimately have "occurs_before ''```json'' ?s i"
      by (intro occurs_beforeI [of "length pre"]) simp_all
    with i(3) show False by simp
  qed
  moreover have "drop (length (pre @ ''```json'' @ body)) ((pre @ ''```json'' @ body) @ ''```'' @ post)
      = ''```'' @ post"
    by (rule drop_length_append)
  then have "prefix ''```'' (drop (length pre + 7 + length body) ?s)"
    by simp
  ultimately have "py_find ?s ''```'' (nat (int i + 1)) \<noteq> - 1"
    by (intro py_find_complete [of _ "length pre + 7 + length body"]) simp_all
  with 1 i(1) show ?thesis
    by (simp add: fenced_def)
qed

lemma closer_not_in_opener:
  assumes "prefix ''```'' (drop k (''``json'' @ r))"
  shows "6 \<le> k"
proof (rule ccontr)
  assume "\<not> 6 \<le> k"
  then consider "k = 0" | "k = 1" | "k = 2" | "k = 3" | "k = 4" | "k = 5"
    by linarith
  then show False
    using assms by cases (simp_all add: eval_nat_numeral)
qed

lemma occurs_before_opener:
  "occurs_before ''```'' (''``json'' @ r) (6 + k) = occurs_before ''```'' r k"
  by (simp add: eval_nat_numeral)

lemma fenced_decomposition:
  assumes "fenced s"
  shows "\<exists>pre post.
           s = pre @ ''```json'' @ fence_body s @ ''```'' @ post \<and>
           \<not> occurs_before ''```json'' s (length pre) \<and>
           \<not> occurs_before ''```'' (fence_body s @ ''```'' @ post) (length (fence_body s))"
proof -
  from assms have 1: "py_find s ''```json'' 0 \<noteq> - 1"
    by (simp add: fenced_def)
  from py_find_sound [OF 1] obtain i where
    i: "py_find s ''```json'' 0 = int i" "i \<le> length s" "prefix ''```json'' (drop i s)"
      "\<not> occurs_before ''```json'' s i"
    by auto
  from i(3) obtain r where r: "drop i s = ''```json'' @ r"
    by (auto simp: prefix_def)
  have s: "s = take i s @ ''```json'' @ r"
    using append_take_drop_id [of i s] by (simp only: r)
  have "drop (Suc i) s = tl (drop i s)"
    by (simp add: drop_Suc tl_drop)
  then have d1: "drop (Suc i) s = ''``json'' @ r"
    by (simp add: r)
  from assms i(1) have 2: "py_find s ''```'' (Suc i) \<noteq> - 1"
    by (simp add: fenced_def nat_add_distrib)
  from py_find_sound [OF 2] obtain k where
    k: "py_find s ''```'' (Suc i) = int (Suc i + k)" "Suc i + k \<le> length s"
      "prefix ''```'' (drop (Suc i + k) s)" "\<not> occurs_before ''```'' (drop (Suc i) s) k"
    by auto
  have "drop (Suc i + k) s = drop k (drop (Suc i) s)"
    by (simp add: add.commute)
  then have pk: "prefix ''```'' (drop k (''``json'' @ r))"
    using k(3) by (simp only: d1)
  from closer_not_in_opener [OF pk] obtain k' where k': "k = 6 + k'"
    using le_Suc_ex by blast
  have pr: "prefix ''```'' (drop k' r)"
    using pk k' by (simp add: eval_nat_numeral)
  then obtain post where post: "drop k' r = ''```'' @ post"
    by (auto simp: prefix_def)
  have len: "k' \<le> length r"
    using pr by (cases "k' \<le> length r") simp_all
  have rr: "r = take k' r @ ''```'' @ post"
    using append_take_drop_id [of k' r] by (simp only: post)
  have nb: "\<not> occurs_before ''```'' r k'"
    using k(4) unfolding d1 k' occurs_before_opener .
  have "drop (i + 7) s = drop 7 (drop i s)"
    by (simp add: add.commute)
  then have d7: "drop (i + 7) s = r"
    by (simp add: r)
  have fb: "fence_body s = take k' r"
    using i(1) k(1) k' d7
    by (simp add: fence_body_def py_slice_def nat_add_distrib add.commute)
  have lb: "length (fence_body s) = k'"
    using len by (simp add: fb)
  have A: "s = take i s @ ''```json'' @ fence_body s @ ''```'' @ post"
    using s rr by (simp only: fb)
  have B: "\<not> occurs_before ''```json'' s (length (take i s))"
    using i(2,4) by (simp add: min_absorb2)
  have C0: "take k' r @ ''```'' @ post = r"
    using rr by simp
  have lt: "length (take k' r) = k'"
    using len by simp
  have C: "\<not> occurs_before ''```'' (fence_body s @ ''```'' @ post) (length (fence_body s))"
    unfolding fb C0 lt by (rule nb)
  from A B C show ?thesis by blast
qed


subsection \<open>The string built from the transcript\<close>





subsection \<open>Loading and storing\<close>

lemma load_memory_direct:
  assumes "truthy summary_memory \<or> \<not> save_to_file p"
  shows "load_memory summary_memory p w = (p\<lparr>short_memory := summary_memory\<rparr>, w)"
  using assms by (auto simp add: load_memory_def)

lemma load_memory_file_backed:
  assumes "\<not> truthy summary_memory" and "save_to_file p"
  shows "load_memory summary_memory p w =
           (p\<lparr>short_memory := (case document w (role_id p) of
                                  None \<Rightarrow> short_memory p | Some v \<Rightarrow> v)\<rparr>,
            w\<lparr>file_reads := (if memory_file w = None then file_reads w
                              else Suc (file_reads w))\<rparr>)"
  using assms
  by (simp add: load_memory_def read_all_memory_def document_def split: option.splits)

lemma save_memory_to_file_document:
  "memory_file (save_memory_to_file p w) = Some ((document w)(role_id p \<mapsto> short_memory p))"
  by (simp add: save_memory_to_file_def read_all_memory_def document_def split: option.splits)

lemma document_save_memory_to_file:
  "document (save_memory_to_file p w) = (document w)(role_id p \<mapsto> short_memory p)"
  by (simp add: document_def save_memory_to_file_document)

lemma save_memory_to_file_fields [simp]:
  "remote_saves (save_memory_to_file p w) = remote_saves w"
  "llm_calls (save_memory_to_file p w) = llm_calls w"
  "logger (save_memory_to_file p w) = logger w"
  by (simp_all add: save_memory_to_file_def read_all_memory_def split: option.splits)

subsection \<open>The branches of \<^verbatim>\<open>save_memory\<close>\<close>

lemma log_add_fields [simp]:
  "memory_file (log_add x w) = memory_file w"
  "file_reads (log_add x w) = file_reads w"
  "remote_saves (log_add x w) = remote_saves w"
  "llm_calls (log_add x w) = llm_calls w"
  "logger (log_add x w) = logger w @ [x]"
  by (simp_all add: log_add_def)

lemma head_fields [simp]:
  "memory_file (log_model_and_key e p w) = memory_file w"
  "file_reads (log_model_and_key e p w) = file_reads w"
  "remote_saves (log_model_and_key e p w) = remote_saves w"
  "llm_calls (log_model_and_key e p w) = llm_calls w"
  by (simp_all add: log_model_and_key_def Let_def split: option.splits)

lemma save_memory_no_llm:
  "llm p = None \<Longrightarrow>
   save_memory e msgs p w =
     (Returns None, p,
      log_add (Error ''LLM is not set for memory provider'') (log_model_and_key e p w))"
  by (simp add: save_memory_def)

lemma save_memory_few:
  "llm p = Some l \<Longrightarrow> length msgs < 2 \<Longrightarrow>
   save_memory e msgs p w = (Returns None, p, log_model_and_key e p w)"
  by (simp add: save_memory_def)


subsection \<open>Structured mode: the cached memory and the file\<close>



subsection \<open>The extracted string and the stored document\<close>




subsection \<open>The string built for the LLM\<close>




subsection \<open>Fewer than two turns\<close>

text \<open>
  C4. For every transcript with fewer than two turns, \<^verbatim>\<open>save_memory\<close> returns
  \<^verbatim>\<open>None\<close>, leaves the object (its cached memory included) as it was, sends nothing
  to the LLM, and leaves the file and the remote store untouched.
\<close>

theorem save_memory_fewer_than_two_turns:
  assumes "length msgs < 2"
  shows "case save_memory e msgs p w of
           (out, p', w') \<Rightarrow>
             out = Returns None \<and> p' = p \<and> llm_calls w' = llm_calls w \<and>
             memory_file w' = memory_file w \<and> remote_saves w' = remote_saves w \<and>
             file_reads w' = file_reads w"
proof (cases "llm p")
  case None
  then show ?thesis by (simp add: save_memory_no_llm)
next
  case (Some l)
  then show ?thesis using assms by (simp add: save_memory_few)
qed

theorem save_memory_fewer_than_two_turns_witness:
  "length [\<lparr>role = ''user'', content = ''hello''\<rparr>] < 2 \<and>
   fst (save_memory env_sample [\<lparr>role = ''user'', content = ''hello''\<rparr>]
          (provider_sample True ''{}'') world_sample) = Returns None \<and>
   fst (snd (save_memory env_sample [\<lparr>role = ''user'', content = ''hello''\<rparr>]
          (provider_sample True ''{}'') world_sample)) = provider_sample True ''{}'' \<and>
   llm_calls (snd (snd (save_memory env_sample [\<lparr>role = ''user'', content = ''hello''\<rparr>]
          (provider_sample True ''{}'') world_sample))) = [] \<and>
   memory_file (snd (snd (save_memory env_sample [\<lparr>role = ''user'', content = ''hello''\<rparr>]
          (provider_sample True ''{}'') world_sample))) = memory_file world_sample"
  using save_memory_fewer_than_two_turns
    [where msgs = "[\<lparr>role = ''user'', content = ''hello''\<rparr>]" and e = env_sample
        and p = "provider_sample True ''{}''" and w = world_sample]
  by (simp add: world_sample_def split: prod.splits)

subsection \<open>Content-only mode\<close>

text \<open>
  C5. In content-only mode (\<open>save_to_file\<close> false) the claim has the LLM's response
  handed to the remote save API under the provider's \<open>role_id\<close> and the cached memory
  returned. The method does not get there: for a provider in content-only mode whose
  cached memory is \<^verbatim>\<open>[1, 2]\<close>, with an LLM bound and a transcript of two turns, the
  call returns \<^verbatim>\<open>None\<close> and not the cached memory, nothing is sent to the LLM and
  nothing is handed to the remote save API. The cached memory is unchanged.
\<close>

theorem save_memory_content_only_at_sample:
  "\<not> save_to_file (provider_sample False ''She lives in Lyon.'') \<and>
   length msgs_sample = 2 \<and>
   fst (save_memory env_sample msgs_sample
       (provider_sample False ''She lives in Lyon.'') world_sample) = Returns None \<and>
   llm_calls (snd (snd (save_memory env_sample msgs_sample
       (provider_sample False ''She lives in Lyon.'') world_sample))) = [] \<and>
   remote_saves (snd (snd (save_memory env_sample msgs_sample
       (provider_sample False ''She lives in Lyon.'') world_sample))) = [] \<and>
   short_memory (fst (snd (save_memory env_sample msgs_sample
       (provider_sample False ''She lives in Lyon.'') world_sample))) = Some ''[1, 2]''"
  by (simp add: save_memory_def provider_sample_def msgs_sample_def world_sample_def Let_def)

subsection \<open>Writing, then loading\<close>

text \<open>
  C6. After \<^verbatim>\<open>save_memory_to_file\<close> has written the cached memory of a provider, a
  provider constructed for the same \<open>role_id\<close> with no content supplied, and likewise a
  provider initialised for that \<open>role_id\<close> as file-backed with no content supplied, has
  the written memory as its cached memory. (The file is its document here; how YAML
  encodes the text is outside the model.)
\<close>

theorem save_then_load_roundtrip:
  assumes "\<not> truthy summary_memory"
  shows "short_memory (fst (new_provider (role_id p) llm0 summary_memory
                              (save_memory_to_file p w))) = short_memory p \<and>
         short_memory (fst (init_memory (role_id p) llm' summary_memory True q
                              (save_memory_to_file p w))) = short_memory p"
  using assms
  by (simp add: new_provider_def init_memory_def load_memory_file_backed
      document_save_memory_to_file)

theorem save_then_load_roundtrip_witness:
  "\<not> truthy None \<and>
   short_memory (fst (new_provider ''role-a'' None None
       (save_memory_to_file (provider_sample True ''{}'') world_sample))) = Some ''[1, 2]'' \<and>
   short_memory (fst (init_memory ''role-a'' None None True
       \<lparr>role_id = ''role-b'', llm = None, short_memory = Some [], save_to_file = True\<rparr>
       (save_memory_to_file (provider_sample True ''{}'') world_sample))) = Some ''[1, 2]''"
  using save_then_load_roundtrip
    [where summary_memory = None and p = "provider_sample True ''{}''" and w = world_sample
       and ?llm0.0 = None and llm' = None
       and q = "\<lparr>role_id = ''role-b'', llm = None, short_memory = Some [], save_to_file = True\<rparr>"]
  by (simp add: truthy_def provider_sample_def)

subsection \<open>Construction and initialisation\<close>

text \<open>
  C7, amended. On initialisation, if the supplied content is a non-empty string or the
  provider is not file-backed, the cache is set to the supplied value and the world, the
  count of file reads included, is unchanged; the same holds on construction for a
  non-empty supplied string. Otherwise the file is read if it exists, and the cache
  becomes the entry of \<open>role_id\<close>; when there is no such entry the cache keeps the value
  it had, which is the empty string on construction and the earlier cached memory on
  initialisation.
\<close>

theorem load_on_construction_and_init:
  "(truthy summary_memory \<or> \<not> save_to_file' \<longrightarrow>
      init_memory role_id' llm' summary_memory save_to_file' p w =
        (p\<lparr>role_id := role_id', llm := llm', save_to_file := save_to_file',
           short_memory := summary_memory\<rparr>, w)) \<and>
   (truthy summary_memory \<longrightarrow>
      new_provider role0 llm0 summary_memory w =
        (\<lparr>role_id = role0, llm = llm0, short_memory = summary_memory, save_to_file = True\<rparr>, w)) \<and>
   (\<not> truthy summary_memory \<and> save_to_file' \<longrightarrow>
      short_memory (fst (init_memory role_id' llm' summary_memory save_to_file' p w)) =
        (case document w role_id' of None \<Rightarrow> short_memory p | Some v \<Rightarrow> v) \<and>
      file_reads (snd (init_memory role_id' llm' summary_memory save_to_file' p w)) =
        (if memory_file w = None then file_reads w else Suc (file_reads w))) \<and>
   (\<not> truthy summary_memory \<longrightarrow>
      short_memory (fst (new_provider role0 llm0 summary_memory w)) =
        (case document w role0 of None \<Rightarrow> Some [] | Some v \<Rightarrow> v) \<and>
      file_reads (snd (new_provider role0 llm0 summary_memory w)) =
        (if memory_file w = None then file_reads w else Suc (file_reads w)))"
  by (simp add: init_memory_def new_provider_def load_memory_file_backed load_memory_direct
      split: option.splits)

theorem load_on_construction_and_init_witness:
  "truthy (Some ''[1, 2]'') \<and> \<not> truthy None \<and>
   init_memory ''role-b'' None (Some ''[1, 2]'') True
       \<lparr>role_id = ''role-a'', llm = None, short_memory = Some [], save_to_file = True\<rparr>
       world_sample =
     (\<lparr>role_id = ''role-b'', llm = None, short_memory = Some ''[1, 2]'', save_to_file = True\<rparr>,
      world_sample) \<and>
   short_memory (fst (init_memory ''role-b'' None None True
       \<lparr>role_id = ''role-a'', llm = None, short_memory = Some [], save_to_file = True\<rparr>
       world_sample)) = Some ''{}'' \<and>
   short_memory (fst (new_provider ''role-c'' None None world_sample)) = Some []"
  using load_on_construction_and_init
    [where summary_memory = "Some ''[1, 2]''" and save_to_file' = True and role_id' = "''role-b''"
       and llm' = None and w = world_sample
       and p = "\<lparr>role_id = ''role-a'', llm = None, short_memory = Some [], save_to_file = True\<rparr>"]
    load_on_construction_and_init
    [where summary_memory = None and save_to_file' = True and role_id' = "''role-b''"
       and llm' = None and w = world_sample and ?role0.0 = "''role-c''" and ?llm0.0 = None
       and p = "\<lparr>role_id = ''role-a'', llm = None, short_memory = Some [], save_to_file = True\<rparr>"]
  by (simp add: truthy_def document_def world_sample_def)

text \<open>
  C7 as stated, with the cache left at the empty default when \<open>role_id\<close> has no entry,
  fails on initialisation: a provider constructed with a supplied memory and then
  initialised, file-backed and without content, for a role that the document does not
  hold keeps the supplied memory.
\<close>

theorem init_memory_absent_entry_counterexample:
  "\<not> truthy None \<and> document world_sample ''role-c'' = None \<and>
   short_memory (fst (init_memory ''role-c'' None None True
       (fst (new_provider ''role-a'' None (Some ''[1, 2]'') world_sample)) world_sample))
     = Some ''[1, 2]'' \<and>
   short_memory (fst (init_memory ''role-c'' None None True
       (fst (new_provider ''role-a'' None (Some ''[1, 2]'') world_sample)) world_sample))
     \<noteq> Some []"
  by (simp add: truthy_def document_def world_sample_def init_memory_def new_provider_def
      load_memory_def read_all_memory_def)

subsection \<open>A malformed credential\<close>

text \<open>
  C8. With a credential that the check reports as malformed, the claim has the problem
  logged and the call go on to the LLM call, the processing of the response and the
  saving. The problem is logged, and the call stops there: for the provider below, whose
  LLM would answer \<^verbatim>\<open>{}\<close>, nothing is sent to the LLM, the call returns \<^verbatim>\<open>None\<close>,
  and the cached memory and the file are as before.
\<close>

theorem save_memory_bad_key_at_sample:
  "check_model_key env_sample (api_key (llm_sample ''your-api-key'' ''{}''))
     = Some ''API key is not set: your-api-key'' \<and>
   length msgs_sample = 2 \<and>
   Error ''API key is not set: your-api-key'' \<in> set (logger (snd (snd (save_memory env_sample
       msgs_sample bad_key_provider_sample world_sample)))) \<and>
   llm_calls (snd (snd (save_memory env_sample msgs_sample
       bad_key_provider_sample world_sample))) = [] \<and>
   fst (save_memory env_sample msgs_sample bad_key_provider_sample world_sample)
     = Returns None \<and>
   short_memory (fst (snd (save_memory env_sample msgs_sample
       bad_key_provider_sample world_sample))) = Some ''[1, 2]'' \<and>
   memory_file (snd (snd (save_memory env_sample msgs_sample
       bad_key_provider_sample world_sample))) = memory_file world_sample"
  by (simp add: save_memory_def bad_key_provider_sample_def msgs_sample_def world_sample_def
      env_sample_def llm_sample_def check_model_key_sample_def log_model_and_key_def
      api_key_of_def log_add_def Let_def)

subsection \<open>\<^verbatim>\<open>query_memory\<close>\<close>

text \<open>
  C9. For every query string, \<^verbatim>\<open>query_memory\<close> returns the cached memory as it is,
  and changes neither the object nor the world.
\<close>

theorem query_memory_returns_cache:
  "query_memory query p w = (short_memory p, p, w)"
  by (simp add: query_memory_def)

theorem query_memory_returns_cache_witness:
  "query_memory [] (provider_sample True ''{}'') world_sample
     = (Some ''[1, 2]'', provider_sample True ''{}'', world_sample) \<and>
   query_memory ''what is the weather'' (provider_sample True ''{}'') world_sample
     = (Some ''[1, 2]'', provider_sample True ''{}'', world_sample) \<and>
   query_memory ''1, 2'' (provider_sample True ''{}'') world_sample
     = (Some ''[1, 2]'', provider_sample True ''{}'', world_sample)"
  using query_memory_returns_cache [of "[]" "provider_sample True ''{}''" world_sample]
    query_memory_returns_cache [of "''what is the weather''" "provider_sample True ''{}''" world_sample]
    query_memory_returns_cache [of "''1, 2''" "provider_sample True ''{}''" world_sample]
  by (simp add: provider_sample_def)

subsection \<open>Turns that are not dialogue\<close>

text \<open>
  C10. The claim has a transcript of two turns or more, none of them a dialogue turn,
  still trigger an LLM call and possibly a write of the store. Such turns do count
  towards the minimum of two and add no line, but the call then ends: for the two turns
  below (roles \<^verbatim>\<open>system\<close> and \<^verbatim>\<open>tool\<close>), with an LLM bound that would answer
  \<^verbatim>\<open>{}\<close>, nothing is sent to the LLM, the call returns \<^verbatim>\<open>None\<close>, and the cached
  memory and the file are as before.
\<close>

theorem save_memory_tool_turns_at_sample:
  "length tool_msgs_sample = 2 \<and> filter dialogue tool_msgs_sample = [] \<and>
   build_msgStr None tool_msgs_sample = [] \<and>
   fst (save_memory env_sample tool_msgs_sample (provider_sample True ''{}'') world_sample)
     = Returns None \<and>
   llm_calls (snd (snd (save_memory env_sample tool_msgs_sample
       (provider_sample True ''{}'') world_sample))) = [] \<and>
   short_memory (fst (snd (save_memory env_sample tool_msgs_sample
       (provider_sample True ''{}'') world_sample))) = Some ''[1, 2]'' \<and>
   memory_file (snd (snd (save_memory env_sample tool_msgs_sample
       (provider_sample True ''{}'') world_sample))) = memory_file world_sample"
  by (simp add: save_memory_def provider_sample_def tool_msgs_sample_def world_sample_def
      dialogue_def build_msgStr_def Let_def)

end
